theory Spec2Isabelle
  imports Main "HOL-Library.Word"
begin

unbundle bit_operations_syntax

section \<open>The Hadoop IPC client of pkg/yarn/client/ipc/client.go\<close>

text \<open>
  The client opens one TCP connection per call, writes the connection header, optionally
  negotiates SASL, writes the connection context, sends one framed request and reads
  one framed response. The functions below follow client.go line by line. Everything
  the Go code takes from other packages (the protobuf codec, the token store, the wire
  constants) is a field of the record \<open>env\<close>; the socket is the record \<open>world\<close>.
\<close>

subsection \<open>Bytes, integers, faults\<close>

type_synonym byte = "8 word"
type_synonym bytes = "byte list"
type_synonym int32 = "32 word"

text \<open>
  A Go function either returns (possibly with a non-nil \<open>error\<close>, here its message),
  panics, or does not return (\<open>Hang\<close>). Go's \<open>int\<close> is 64 bits wide. Lengths are
  of type \<open>int\<close> and stay below \<open>2 ^ 63\<close>: they are natural numbers here. Where the
  code converts a \<open>uint64\<close> to \<open>int\<close>, adds to it, or converts an \<open>int\<close> to \<open>int32\<close>,
  the wrap-around is written out with words.
\<close>

datatype fault = Failure string | Panic string | Hang

definition add_int :: "int \<Rightarrow> int \<Rightarrow> int" where
  \<comment> \<open>\<open>a + b\<close> on Go's 64-bit \<open>int\<close>\<close>
  "add_int a b = sint ((word_of_int a + word_of_int b) :: 64 word)"

definition slice :: "'a list \<Rightarrow> int \<Rightarrow> int \<Rightarrow> 'a list option" where
  \<comment> \<open>the slice expression \<open>s[lo:hi]\<close> on a slice whose capacity is its length (every
      buffer sliced by the receive path comes straight from \<open>make\<close>); \<open>None\<close> is the
      run-time panic "slice bounds out of range"\<close>
  "slice s lo hi =
     (if 0 \<le> lo \<and> lo \<le> hi \<and> hi \<le> int (length s)
      then Some (take (nat (hi - lo)) (drop (nat lo) s)) else None)"

text \<open>
  A byte slice held in a message field: its visible elements and the bytes of the
  backing array behind them, up to the capacity. Go lets \<open>s[0:n]\<close> reach into the
  spare part.
\<close>

record byteslice =
  elems :: bytes
  spare :: bytes

definition cap :: "byteslice \<Rightarrow> nat" where
  "cap s = length (elems s) + length (spare s)"

definition reslice16 :: "byteslice \<Rightarrow> bytes option" where
  \<comment> \<open>\<open>s[0:16]\<close>\<close>
  "reslice16 s = (if 16 \<le> cap s then Some (take 16 (elems s @ spare s)) else None)"

subsection \<open>Varints (google.golang.org/protobuf/encoding/protowire) and fixed integers\<close>

text \<open>
  \<open>protowire.ConsumeVarint\<close> reads at most ten bytes. It returns the value and the number
  of bytes read, or a negative count: \<open>-1\<close> when the buffer ends inside the varint,
  \<open>-3\<close> when the tenth byte overflows 64 bits. It never returns the count 0.
\<close>

fun ConsumeVarint_from :: "nat \<Rightarrow> 64 word \<Rightarrow> bytes \<Rightarrow> 64 word \<times> int" where
  "ConsumeVarint_from k v [] = (0, - 1)"
| "ConsumeVarint_from k v (b # bs) =
     (let v' = v + push_bit (7 * k) (ucast b) in
      if k = 9 then (if b < 2 then (v', 10) else (0, - 3))
      else if b < 0x80 then (v', int k + 1)
      else ConsumeVarint_from (Suc k) (v' - push_bit (7 * k) 0x80) bs)"

definition ConsumeVarint :: "bytes \<Rightarrow> 64 word \<times> int" where
  "ConsumeVarint b = ConsumeVarint_from 0 0 b"

text \<open>\<open>protowire.AppendVarint(nil, uint64(n))\<close> for a length \<open>n\<close>.\<close>

fun AppendVarint :: "nat \<Rightarrow> bytes" where
  "AppendVarint v =
     (if v < 128 then [of_nat v] else of_nat (v mod 128 + 128) # AppendVarint (v div 128))"

declare AppendVarint.simps [simp del]

text \<open>
  \<open>sizeVarint\<close> (client.go 310-319): \<open>for { n++; x >>= 7; if x == 0 { break } }\<close> on a
  signed \<open>int\<close>. The shift is arithmetic, so a negative \<open>x\<close> never reaches 0.
\<close>

partial_function (option) sizeVarint_loop :: "int \<Rightarrow> int \<Rightarrow> int option" where
  "sizeVarint_loop x n =
     (let n' = n + 1; x' = x div 128 in
      if x' = 0 then Some n' else sizeVarint_loop x' n')"

declare sizeVarint_loop.simps [code]

definition sizeVarint :: "int \<Rightarrow> int option" where
  "sizeVarint x = sizeVarint_loop x 0"

text \<open>
  Modelled from the spec: \<open>yarnauth.ConvertFixedToBytes\<close> and
  \<open>yarnauth.ConvertBytesToFixed\<close> are not among the sources. The spec fixes them for
  the total-length prefix: a 4-byte big-endian \<open>int32\<close>.
\<close>

definition ConvertFixedToBytes :: "int32 \<Rightarrow> bytes" where
  "ConvertFixedToBytes w =
     [ucast (drop_bit 24 w), ucast (drop_bit 16 w), ucast (drop_bit 8 w), ucast w]"

fun ConvertBytesToFixed :: "bytes \<Rightarrow> int32" where
  "ConvertBytesToFixed [] = 0"
| "ConvertBytesToFixed (b # bs) = push_bit (8 * length bs) (ucast b) OR ConvertBytesToFixed bs"

subsection \<open>Messages\<close>

text \<open>
  The generated protobuf structs of package \<open>hadoop_common\<close> are not among the
  sources: the records hold the fields client.go reads or writes, with the types its
  uses show. A proto2 field is a pointer: \<open>None\<close> is nil. An enum value that is only
  printed is kept as the name its \<open>String()\<close> prints.
\<close>

datatype RpcStatusProto = SUCCESS | ERROR | FATAL

fun RpcStatusProto_String :: "RpcStatusProto \<Rightarrow> string" where
  "RpcStatusProto_String SUCCESS = ''SUCCESS''"
| "RpcStatusProto_String ERROR = ''ERROR''"
| "RpcStatusProto_String FATAL = ''FATAL''"

record RpcResponseHeaderProto =
  Status :: "RpcStatusProto option"
  ExceptionClassName :: "string option"
  ErrorMsg :: "string option"
  ErrorDetail :: "string option"
  ClientId :: "byteslice option"

definition empty_RpcResponseHeaderProto :: RpcResponseHeaderProto where
  "empty_RpcResponseHeaderProto =
     \<lparr>Status = None, ExceptionClassName = None, ErrorMsg = None, ErrorDetail = None,
      ClientId = None\<rparr>"

record RpcRequestHeaderProto =
  RpcKind :: string
  RpcOp :: string
  CallId :: int32
  ReqClientId :: bytes
  RetryCount :: int32

record RequestHeaderProto =
  MethodName :: "string option"
  DeclaringClassProtocolName :: "string option"

record 'u IpcConnectionContextProto =
  UserInfo :: 'u
  Protocol :: string

datatype SaslState = SASL_SUCCESS | NEGOTIATE | INITIATE | CHALLENGE | RESPONSE | WRAP

record SaslAuth =
  Method :: "string option"
  Mechanism :: "string option"
  AuthProtocolName :: "string option"
  ServerId :: "string option"
  Challenge :: "bytes option"

record RpcSaslProto =
  State :: "SaslState option"
  Token :: bytes
  Auths :: "SaslAuth list"

definition empty_RpcSaslProto :: RpcSaslProto where
  "empty_RpcSaslProto = \<lparr>State = None, Token = [], Auths = []\<rparr>"

text \<open>
  The generated getters return the zero value of the field when it is nil; for the state
  of a SASL message that is the first value of the enum, SUCCESS.
\<close>

definition GetString :: "string option \<Rightarrow> string" where
  "GetString f = (case f of None \<Rightarrow> [] | Some s \<Rightarrow> s)"

definition GetChallenge :: "SaslAuth \<Rightarrow> bytes" where
  "GetChallenge a = (case Challenge a of None \<Rightarrow> [] | Some c \<Rightarrow> c)"

definition GetState :: "RpcSaslProto \<Rightarrow> SaslState" where
  "GetState m = (case State m of None \<Rightarrow> SASL_SUCCESS | Some s \<Rightarrow> s)"

datatype AuthProtocol = AUTH_PROTOCOL_NONE | AUTH_PROTOCOL_SASL

subsection \<open>The client, the call and what the other packages provide\<close>

record 'u Client =
  ClientUUID :: "bytes option"   \<comment> \<open>\<open>ClientId *gouuid.UUID\<close>, a \<open>[16]byte\<close>\<close>
  Ugi :: 'u
  RealUser :: "string option"    \<comment> \<open>\<open>Ugi.RealUser\<close>\<close>
  ServerAddress :: string
  TCPNoDelay :: bool

record ('q, 'r) call =
  callId :: int32
  procedure :: RequestHeaderProto
  request :: 'q
  response :: 'r
  retryCount :: int32

text \<open>
  \<open>proto.Marshal\<close> returns bytes or an error; \<open>proto.Unmarshal\<close> fills the message it
  is given and returns an error or nil. The wire constants of package \<open>yarnauth\<close>, the
  token store and the digest of package \<open>security\<close> are taken as they come.
\<close>

record ('u, 'q, 'r, 't) env =
  marshalRpcHeader :: "RpcRequestHeaderProto \<Rightarrow> string + bytes"
  marshalProcedure :: "RequestHeaderProto \<Rightarrow> string + bytes"
  marshalRequest :: "'q \<Rightarrow> string + bytes"
  marshalContext :: "'u IpcConnectionContextProto \<Rightarrow> string + bytes"
  marshalSasl :: "RpcSaslProto \<Rightarrow> string + bytes"
  unmarshalHeader :: "bytes \<Rightarrow> RpcResponseHeaderProto \<Rightarrow> string option \<times> RpcResponseHeaderProto"
  unmarshalSasl :: "bytes \<Rightarrow> RpcSaslProto \<Rightarrow> string option \<times> RpcSaslProto"
  unmarshalResponse :: "bytes \<Rightarrow> 'r \<Rightarrow> string option \<times> 'r"
  userTokens :: "string \<rightharpoonup> 't"
  GetDigestMD5ChallengeResponse :: "string \<Rightarrow> string \<Rightarrow> bytes \<Rightarrow> 't option \<Rightarrow> string + bytes"
  CreateSimpleUGIProto :: 'u
  RPC_HEADER :: bytes
  VERSION :: bytes
  serviceClassBytes :: bytes   \<comment> \<open>\<open>ConvertFixedToBytes(RPC_SERVICE_CLASS)\<close>\<close>
  authProtocolBytes :: "AuthProtocol \<Rightarrow> bytes"   \<comment> \<open>\<open>ConvertFixedToBytes(authProtocol)\<close>\<close>
  RPC_PROTOCOL_BUFFFER :: string
  RPC_FINAL_PACKET :: string
  RPC_DEFAULT_RETRY_COUNT :: int32

subsection \<open>The socket\<close>

text \<open>
  What the peer and the network will do is part of the state: the outcome of the dial,
  of the successive \<open>SetDeadline\<close> and \<open>Write\<close> calls (an exhausted list means
  success), and the segments that will arrive. \<open>Read\<close> returns what has arrived, at
  most the size of the buffer; it returns \<open>EOF\<close> when nothing is left. The trace
  records what the client did to the connection, in order.
\<close>

datatype arrival = Chunk bytes | Broken string

datatype event = Dialed | Deadline | Wrote bytes | Got nat bytes | Closed

record world =
  dial_err :: "string option"
  nodelay_err :: "string option"
  deadline_errs :: "string option list"
  write_errs :: "string option list"
  incoming :: "arrival list"
  trace :: "event list"
  is_open :: bool

type_synonym 'a io = "world \<Rightarrow> (fault + 'a) \<times> world"

definition bind_io :: "'a io \<Rightarrow> ('a \<Rightarrow> 'b io) \<Rightarrow> 'b io" where
  "bind_io m f w = (case m w of (Inl e, w') \<Rightarrow> (Inl e, w') | (Inr x, w') \<Rightarrow> f x w')"

definition return_io :: "'a \<Rightarrow> 'a io" where
  "return_io x w = (Inr x, w)"

definition fail_io :: "fault \<Rightarrow> 'a io" where
  "fail_io e w = (Inl e, w)"

definition lift_err :: "string + 'a \<Rightarrow> 'a io" where
  \<comment> \<open>\<open>x, err := f(); if err != nil { return err }\<close>\<close>
  "lift_err r = (case r of Inl e \<Rightarrow> fail_io (Failure e) | Inr x \<Rightarrow> return_io x)"

definition next_outcome :: "string option list \<Rightarrow> string option \<times> string option list" where
  "next_outcome plan = (case plan of [] \<Rightarrow> (None, []) | r # rest \<Rightarrow> (r, rest))"

definition SetDeadline :: "unit io" where
  "SetDeadline w =
     (case next_outcome (deadline_errs w) of
        (Some e, rest) \<Rightarrow> (Inl (Failure e), w\<lparr>deadline_errs := rest\<rparr>)
      | (None, rest) \<Rightarrow> (Inr (), w\<lparr>deadline_errs := rest, trace := trace w @ [Deadline]\<rparr>))"

definition Write :: "bytes \<Rightarrow> unit io" where
  "Write b w =
     (case next_outcome (write_errs w) of
        (Some e, rest) \<Rightarrow> (Inl (Failure e), w\<lparr>write_errs := rest\<rparr>)
      | (None, rest) \<Rightarrow> (Inr (), w\<lparr>write_errs := rest, trace := trace w @ [Wrote b]\<rparr>))"

definition Read :: "nat \<Rightarrow> bytes io" where
  \<comment> \<open>one \<open>conn.con.Read\<close> into a buffer of \<open>n\<close> bytes; the result is what was read\<close>
  "Read n w =
     (if n = 0 then (Inr [], w)
      else case incoming w of
        [] \<Rightarrow> (Inl (Failure ''EOF''), w)
      | Broken e # rest \<Rightarrow> (Inl (Failure e), w\<lparr>incoming := rest\<rparr>)
      | Chunk c # rest \<Rightarrow>
          if length c \<le> n
          then (Inr c, w\<lparr>incoming := rest, trace := trace w @ [Got n c]\<rparr>)
          else (Inr (take n c),
                w\<lparr>incoming := Chunk (drop n c) # rest, trace := trace w @ [Got n (take n c)]\<rparr>))"

definition Close :: "unit io" where
  "Close w = (Inr (), w\<lparr>is_open := False, trace := trace w @ [Closed]\<rparr>)"

text \<open>
  \<open>io.ReadFull(bufio.NewReader(conn.con), buf)\<close>. The fresh \<open>bufio.Reader\<close> has a buffer
  of 4096 bytes: it reads from the socket into \<open>buf\<close> itself when at least that much is
  still wanted and into its own buffer otherwise, and whenever the loop of
  \<open>ReadFull\<close> goes round again that buffer is empty. \<open>need\<close> is what is still wanted,
  \<open>got\<close> what has been copied into \<open>buf\<close>.
\<close>

function ReadFull_loop :: "nat \<Rightarrow> bytes \<Rightarrow> bytes io" where
  "ReadFull_loop need got w =
     (if need = 0 then (Inr got, w)
      else case Read (max need 4096) w of
        (Inl (Failure e), w') \<Rightarrow>
          (Inl (Failure (if got \<noteq> [] \<and> e = ''EOF'' then ''unexpected EOF'' else e)), w')
      | (Inl f, w') \<Rightarrow> (Inl f, w')
      | (Inr c, w') \<Rightarrow>
          if need \<le> length c then (Inr (got @ take need c), w')
          else ReadFull_loop (need - length c) (got @ c) w')"
  by pat_completeness auto
termination
  apply (relation "measure (\<lambda>(need, got, w). length (incoming w))")
   apply simp
  apply (auto simp: Read_def split: if_splits list.splits arrival.splits)
  done

declare ReadFull_loop.simps [simp del]

definition ReadFull :: "nat \<Rightarrow> bytes io" where
  "ReadFull n = ReadFull_loop n []"

subsection \<open>Receiving: \<open>readDelimited\<close>, \<open>checkRpcHeader\<close>, \<open>readResponse\<close>\<close>

text \<open>
  \<open>readDelimited\<close> (client.go 465-479) returns an offset and an error, and has filled
  \<open>msg\<close>; or it panics in the slice expression \<open>rawData[off : off+int(headerLength)]\<close>.
\<close>

datatype 'm delimited = Crashed string | Returned int "string option" 'm

definition readDelimited ::
  "(bytes \<Rightarrow> 'm \<Rightarrow> string option \<times> 'm) \<Rightarrow> bytes \<Rightarrow> 'm \<Rightarrow> 'm delimited" where
  "readDelimited unmarshal rawData msg =
     (case ConsumeVarint rawData of (headerLength, off) \<Rightarrow>
        if off = 0 then Returned (- 1) None msg
        else case slice rawData off (add_int off (sint headerLength)) of
          None \<Rightarrow> Crashed ''slice bounds out of range''
        | Some b \<Rightarrow>
            (case unmarshal b msg of
               (Some err, msg') \<Rightarrow> Returned (- 1) (Some err) msg'
             | (None, msg') \<Rightarrow> Returned (add_int off (sint headerLength)) None msg'))"

definition checkRpcHeader :: "'u Client \<Rightarrow> RpcResponseHeaderProto \<Rightarrow> fault + unit" where
  "checkRpcHeader c rpcResponseHeaderProto =
     (case ClientUUID c of
        None \<Rightarrow> Inl (Panic ''nil pointer dereference'')
      | Some callClientId \<Rightarrow>
          (case ClientId rpcResponseHeaderProto of
             None \<Rightarrow> Inr ()
           | Some headerClientId \<Rightarrow>
               (case reslice16 headerClientId of
                  None \<Rightarrow> Inl (Panic ''slice bounds out of range'')
                | Some header16 \<Rightarrow>
                    if callClientId \<noteq> header16 then Inl (Failure ''Incorrect clientId'')
                    else Inr ())))"

fun Join :: "string list \<Rightarrow> string \<Rightarrow> string" where
  "Join [] sep = []"
| "Join [x] sep = x"
| "Join (x # y # r) sep = x @ sep @ Join (y # r) sep"

definition errorDetails :: "RpcResponseHeaderProto \<Rightarrow> RpcStatusProto \<Rightarrow> string list" where
  \<comment> \<open>client.go 450-459 (and 591-600): the array and its three assignments\<close>
  "errorDetails h st =
     (let d = [RpcStatusProto_String st, ''ServerDidNotSetExceptionClassName'',
               ''ServerDidNotSetErrorMsg'', ''ServerDidNotSetErrorDetail''];
          d = (case ExceptionClassName h of None \<Rightarrow> d | Some s \<Rightarrow> d[0 := s]);
          d = (case ErrorMsg h of None \<Rightarrow> d | Some s \<Rightarrow> d[1 := s]);
          d = (case ErrorDetail h of None \<Rightarrow> d | Some s \<Rightarrow> d[2 := s])
      in d)"

definition remoteError :: "RpcResponseHeaderProto \<Rightarrow> RpcStatusProto \<Rightarrow> string" where
  \<comment> \<open>client.go 460: \<open>strings.Join(errorDetails[:], ":")\<close>\<close>
  "remoteError h st = Join (errorDetails h st) '':''"

text \<open>
  \<open>readResponse\<close> (client.go 405-463) in two parts: \<open>readFrame\<close> is lines 406-428, up
  to the frame in \<open>responseBytes\<close>; \<open>decodeResponse\<close> is lines 430-462, from the parsing
  of the response header on. \<open>readResponse\<close> returns the error (or nil, or the panic)
  together with the caller's response message, which \<open>proto.Unmarshal\<close> fills in place.
\<close>

definition decodeResponse ::
  "('u, 'q, 'r, 't) env \<Rightarrow> 'u Client \<Rightarrow> ('q, 'r) call \<Rightarrow> bytes \<Rightarrow> (fault + unit) \<times> 'r" where
  "decodeResponse E c rpcCall responseBytes =
     (case readDelimited (unmarshalHeader E) responseBytes empty_RpcResponseHeaderProto of
        Crashed p \<Rightarrow> (Inl (Panic p), response rpcCall)
      | Returned off (Some err) hdr \<Rightarrow> (Inl (Failure err), response rpcCall)
      | Returned off None hdr \<Rightarrow>
          (case checkRpcHeader c hdr of
             Inl f \<Rightarrow> (Inl f, response rpcCall)
           | Inr _ \<Rightarrow>
               (case Status hdr of
                  None \<Rightarrow> (Inl (Panic ''nil pointer dereference''), response rpcCall)
                | Some st \<Rightarrow>
                    if st = SUCCESS then
                      (case slice responseBytes off (int (length responseBytes)) of
                         None \<Rightarrow> (Inl (Panic ''slice bounds out of range''), response rpcCall)
                       | Some rest \<Rightarrow>
                           (case readDelimited (unmarshalResponse E) rest (response rpcCall) of
                              Crashed p \<Rightarrow> (Inl (Panic p), response rpcCall)
                            | Returned _ (Some err) r \<Rightarrow> (Inl (Failure err), r)
                            | Returned _ None r \<Rightarrow> (Inr (), r)))
                    else (Inl (Failure (remoteError hdr st)), response rpcCall))))"

definition pad4 :: "bytes \<Rightarrow> bytes" where
  \<comment> \<open>\<open>totalLengthBytes\<close> after one \<open>Read\<close>: what was read, the rest still zero\<close>
  "pad4 got = got @ replicate (4 - length got) 0"

definition readFrame :: "bytes io" where
  \<comment> \<open>client.go 406-428: the length prefix with one \<open>Read\<close>, the frame with \<open>io.ReadFull\<close>,
      which returns without error only when it has filled the buffer\<close>
  "readFrame =
     bind_io (Read 4) (\<lambda>got.
       let totalLength = sint (ConvertBytesToFixed (pad4 got)) in
       if totalLength < 0 then fail_io (Panic ''makeslice: len out of range'')
       else ReadFull (nat totalLength))"

definition readResponse ::
  "('u, 'q, 'r, 't) env \<Rightarrow> 'u Client \<Rightarrow> ('q, 'r) call \<Rightarrow> world \<Rightarrow> (fault + unit) \<times> 'r \<times> world" where
  "readResponse E c rpcCall w =
     (case readFrame w of
        (Inl f, w1) \<Rightarrow> (Inl f, response rpcCall, w1)
      | (Inr responseBytes, w1) \<Rightarrow>
          (case decodeResponse E c rpcCall responseBytes of (res, r) \<Rightarrow> (res, r, w1)))"

subsection \<open>Sending: \<open>writeDelimitedBytes\<close>, \<open>sendRequest\<close>, the connection header and context\<close>

definition writeDelimitedBytes :: "bytes \<Rightarrow> unit io" where
  "writeDelimitedBytes data =
     bind_io (Write (AppendVarint (length data))) (\<lambda>_. Write data)"

definition sized :: "bytes \<Rightarrow> int io" where
  \<comment> \<open>\<open>len(b) + sizeVarint(len(b))\<close>, a summand of \<open>totalLength\<close>\<close>
  "sized b =
     (case sizeVarint (int (length b)) of
        None \<Rightarrow> fail_io Hang
      | Some n \<Rightarrow> return_io (int (length b) + n))"

definition deref :: "'a option \<Rightarrow> 'a io" where
  \<comment> \<open>\<open>*p\<close>\<close>
  "deref p = (case p of None \<Rightarrow> fail_io (Panic ''nil pointer dereference'') | Some x \<Rightarrow> return_io x)"

definition sendRequest :: "('u, 'q, 'r, 't) env \<Rightarrow> 'u Client \<Rightarrow> ('q, 'r) call \<Rightarrow> unit io" where
  "sendRequest E c rpcCall =
     bind_io SetDeadline (\<lambda>_.
     bind_io (deref (ClientUUID c)) (\<lambda>clientId.
     bind_io (lift_err (marshalRpcHeader E
        \<lparr>RpcKind = RPC_PROTOCOL_BUFFFER E, RpcOp = RPC_FINAL_PACKET E, CallId = callId rpcCall,
         ReqClientId = clientId, RetryCount = retryCount rpcCall\<rparr>)) (\<lambda>rpcReqHeaderProtoBytes.
     bind_io (lift_err (marshalProcedure E (procedure rpcCall))) (\<lambda>requestHeaderProtoBytes.
     bind_io (lift_err (marshalRequest E (request rpcCall))) (\<lambda>paramProtoBytes.
     bind_io (sized rpcReqHeaderProtoBytes) (\<lambda>l1.
     bind_io (sized requestHeaderProtoBytes) (\<lambda>l2.
     bind_io (sized paramProtoBytes) (\<lambda>l3.
     bind_io (Write (ConvertFixedToBytes (word_of_int (l1 + l2 + l3)))) (\<lambda>_.
     bind_io (writeDelimitedBytes rpcReqHeaderProtoBytes) (\<lambda>_.
     bind_io (writeDelimitedBytes requestHeaderProtoBytes) (\<lambda>_.
     writeDelimitedBytes paramProtoBytes)))))))))))"

definition writeConnectionHeader :: "('u, 'q, 'r, 't) env \<Rightarrow> AuthProtocol \<Rightarrow> unit io" where
  "writeConnectionHeader E authProtocol =
     bind_io SetDeadline (\<lambda>_.
     bind_io (Write (RPC_HEADER E)) (\<lambda>_.
     bind_io (Write (VERSION E)) (\<lambda>_.
     bind_io (Write (serviceClassBytes E)) (\<lambda>_.
     Write (authProtocolBytes E authProtocol)))))"

record connection_id =
  user :: string
  protocol :: string
  address :: string
  ConnClientId :: bytes

definition writeConnectionContext ::
  "('u, 'q, 'r, 't) env \<Rightarrow> 'u Client \<Rightarrow> connection_id \<Rightarrow> AuthProtocol \<Rightarrow> unit io" where
  "writeConnectionContext E c connectionId authProtocol =
     bind_io SetDeadline (\<lambda>_.
     bind_io (deref (ClientUUID c)) (\<lambda>clientId.
     bind_io (lift_err (marshalRpcHeader E
        \<lparr>RpcKind = RPC_PROTOCOL_BUFFFER E, RpcOp = RPC_FINAL_PACKET E, CallId = - 3,
         ReqClientId = clientId, RetryCount = RPC_DEFAULT_RETRY_COUNT E\<rparr>)) (\<lambda>rpcReqHeaderProtoBytes.
     bind_io (lift_err (marshalContext E
        \<lparr>UserInfo = CreateSimpleUGIProto E, Protocol = protocol connectionId\<rparr>)) (\<lambda>ipcCtxProtoBytes.
     bind_io (sized rpcReqHeaderProtoBytes) (\<lambda>l1.
     bind_io (sized ipcCtxProtoBytes) (\<lambda>l2.
     bind_io (Write (ConvertFixedToBytes (word_of_int (l1 + l2)))) (\<lambda>_.
     bind_io (writeDelimitedBytes rpcReqHeaderProtoBytes) (\<lambda>_.
     writeDelimitedBytes ipcCtxProtoBytes))))))))"

subsection \<open>The SASL exchange\<close>

definition sendSaslMessage :: "('u, 'q, 'r, 't) env \<Rightarrow> RpcSaslProto \<Rightarrow> unit io" where
  "sendSaslMessage E message =
     bind_io (lift_err (marshalRpcHeader E
        \<lparr>RpcKind = RPC_PROTOCOL_BUFFFER E, RpcOp = RPC_FINAL_PACKET E, CallId = - 33,
         ReqClientId = [], RetryCount = - 1\<rparr>)) (\<lambda>saslRpcHeaderProtoBytes.
     bind_io (lift_err (marshalSasl E message)) (\<lambda>saslRpcMessageProtoBytes.
     bind_io (sized saslRpcHeaderProtoBytes) (\<lambda>l1.
     bind_io (sized saslRpcMessageProtoBytes) (\<lambda>l2.
     bind_io SetDeadline (\<lambda>_.
     bind_io (Write (ConvertFixedToBytes (word_of_int (l1 + l2)))) (\<lambda>_.
     bind_io (writeDelimitedBytes saslRpcHeaderProtoBytes) (\<lambda>_.
     writeDelimitedBytes saslRpcMessageProtoBytes)))))))"

definition checkSaslRpcHeader :: "RpcResponseHeaderProto \<Rightarrow> fault + unit" where
  "checkSaslRpcHeader rpcResponseHeaderProto =
     (case ClientId rpcResponseHeaderProto of
        None \<Rightarrow> Inr ()
      | Some headerClientId \<Rightarrow>
          if elems headerClientId \<noteq> [] then Inl (Failure ''Incorrect clientId'') else Inr ())"

text \<open>
  \<open>receiveSaslMessage\<close> (client.go 540-604) in two parts, as \<open>readResponse\<close>:
  \<open>readSaslFrame\<close> is lines 541-563, \<open>decodeSaslResponse\<close> lines 565-603. The body of
  the frame is read with one \<open>conn.con.Read\<close> whose count is dropped: what it did not
  fill stays zero.
\<close>

definition decodeSaslResponse :: "('u, 'q, 'r, 't) env \<Rightarrow> bytes \<Rightarrow> fault + RpcSaslProto" where
  "decodeSaslResponse E responseBytes =
     (case readDelimited (unmarshalHeader E) responseBytes empty_RpcResponseHeaderProto of
        Crashed p \<Rightarrow> Inl (Panic p)
      | Returned off (Some err) hdr \<Rightarrow> Inl (Failure err)
      | Returned off None hdr \<Rightarrow>
          (case checkSaslRpcHeader hdr of
             Inl f \<Rightarrow> Inl f
           | Inr _ \<Rightarrow>
               (case Status hdr of
                  None \<Rightarrow> Inl (Panic ''nil pointer dereference'')
                | Some st \<Rightarrow>
                    if st = SUCCESS then
                      (case slice responseBytes off (int (length responseBytes)) of
                         None \<Rightarrow> Inl (Panic ''slice bounds out of range'')
                       | Some rest \<Rightarrow>
                           (case readDelimited (unmarshalSasl E) rest empty_RpcSaslProto of
                              Crashed p \<Rightarrow> Inl (Panic p)
                            | Returned _ (Some err) m \<Rightarrow> Inl (Failure err)
                            | Returned _ None m \<Rightarrow> Inr m))
                    else Inl (Failure (remoteError hdr st)))))"

definition readSaslFrame :: "bytes io" where
  \<comment> \<open>client.go 541-563\<close>
  "readSaslFrame =
     bind_io SetDeadline (\<lambda>_.
     bind_io (Read 4) (\<lambda>got.
       let totalLength = sint (ConvertBytesToFixed (pad4 got)) in
       if totalLength < 0 then fail_io (Panic ''makeslice: len out of range'')
       else bind_io (Read (nat totalLength)) (\<lambda>body.
         return_io (body @ replicate (nat totalLength - length body) 0))))"

definition receiveSaslMessage :: "('u, 'q, 'r, 't) env \<Rightarrow> RpcSaslProto io" where
  "receiveSaslMessage E =
     bind_io readSaslFrame (\<lambda>responseBytes w. (decodeSaslResponse E responseBytes, w))"

definition negotiate_message :: RpcSaslProto where
  \<comment> \<open>client.go 618-619\<close>
  "negotiate_message = \<lparr>State = Some NEGOTIATE, Token = [], Auths = []\<rparr>"

definition negotiateSimpleTokenAuth :: "('u, 'q, 'r, 't) env \<Rightarrow> 'u Client \<Rightarrow> unit io" where
  "negotiateSimpleTokenAuth E client =
     bind_io (sendSaslMessage E negotiate_message) (\<lambda>_.
     bind_io (receiveSaslMessage E) (\<lambda>saslResponseMessage.
       case Auths saslResponseMessage of
         [] \<Rightarrow> fail_io (Failure ''No supported auth mechanisms!'')
       | auth # _ \<Rightarrow>
           if \<not> (GetString (Method auth) = ''TOKEN'' \<and> GetString (Mechanism auth) = ''DIGEST-MD5'')
           then fail_io (Failure ''yarnauth only supports TOKEN/DIGEST-MD5 auth!'')
           else
             bind_io (lift_err (GetDigestMD5ChallengeResponse E
                (GetString (AuthProtocolName auth)) (GetString (ServerId auth)) (GetChallenge auth)
                (userTokens E (ServerAddress client)))) (\<lambda>response.
             bind_io (sendSaslMessage E
                \<lparr>State = Some INITIATE, Token = response,
                 Auths = [\<lparr>Method = Some (GetString (Method auth)),
                           Mechanism = Some (GetString (Mechanism auth)),
                           AuthProtocolName = Some (GetString (AuthProtocolName auth)),
                           ServerId = Some (GetString (ServerId auth)),
                           Challenge = None\<rparr>]\<rparr>) (\<lambda>_.
             bind_io (receiveSaslMessage E) (\<lambda>saslResponseMessage.
               if GetState saslResponseMessage \<noteq> SASL_SUCCESS
               then fail_io (Failure ''expected SASL SUCCESS response!'')
               else return_io ())))))"

subsection \<open>\<open>setupConnection\<close>, \<open>getConnection\<close>, \<open>Call\<close>\<close>

definition setupConnection :: "'u Client \<Rightarrow> unit io" where
  \<comment> \<open>client.go 193-217: a successful dial of "tcp" yields a \<open>*net.TCPConn\<close>; when
      \<open>SetNoDelay\<close> fails the connection stays as the dial left it\<close>
  "setupConnection c w =
     (case dial_err w of
        Some e \<Rightarrow> (Inl (Failure e), w)
      | None \<Rightarrow>
          (let w1 = w\<lparr>is_open := True, trace := trace w @ [Dialed]\<rparr> in
           case nodelay_err w1 of
             Some e \<Rightarrow> (Inl (Failure e), w1)
           | None \<Rightarrow> (Inr (), w1)))"

definition findUsableTokenForService :: "('u, 'q, 'r, 't) env \<Rightarrow> string \<Rightarrow> 't option" where
  \<comment> \<open>client.go 124-139: the entry of the token map for the service, if it is not nil\<close>
  "findUsableTokenForService E service = userTokens E service"

definition getConnection :: "('u, 'q, 'r, 't) env \<Rightarrow> 'u Client \<Rightarrow> connection_id \<Rightarrow> unit io" where
  "getConnection E c connectionId =
     bind_io (setupConnection c) (\<lambda>_.
       let authProtocol =
             (case findUsableTokenForService E (ServerAddress c) of
                None \<Rightarrow> AUTH_PROTOCOL_NONE | Some _ \<Rightarrow> AUTH_PROTOCOL_SASL) in
       bind_io (writeConnectionHeader E authProtocol) (\<lambda>_.
       bind_io (if authProtocol = AUTH_PROTOCOL_SASL then negotiateSimpleTokenAuth E c
                else return_io ()) (\<lambda>_.
       writeConnectionContext E c connectionId authProtocol)))"

text \<open>
  \<open>Call\<close> (client.go 86-117). \<open>conn.con.Close()\<close> is the statement after
  \<open>readResponse\<close>: it runs when \<open>readResponse\<close> returns, with or without an error, and
  no other path reaches it.
\<close>

definition newConnectionId :: "'u Client \<Rightarrow> RequestHeaderProto \<Rightarrow> connection_id io" where
  \<comment> \<open>client.go 88-93: three pointers are dereferenced\<close>
  "newConnectionId c rpc =
     bind_io (deref (RealUser c)) (\<lambda>u.
     bind_io (deref (DeclaringClassProtocolName rpc)) (\<lambda>p.
     bind_io (deref (ClientUUID c)) (\<lambda>cid.
     return_io \<lparr>user = u, protocol = p, address = ServerAddress c, ConnClientId = cid\<rparr>)))"

definition newCall :: "RequestHeaderProto \<Rightarrow> 'q \<Rightarrow> 'r \<Rightarrow> ('q, 'r) call" where
  \<comment> \<open>client.go 103\<close>
  "newCall rpc rpcRequest rpcResponse =
     \<lparr>callId = 0, procedure = rpc, request = rpcRequest, response = rpcResponse, retryCount = 0\<rparr>"

definition Call ::
  "('u, 'q, 'r, 't) env \<Rightarrow> 'u Client \<Rightarrow> RequestHeaderProto \<Rightarrow> 'q \<Rightarrow> 'r \<Rightarrow> world
     \<Rightarrow> (fault + unit) \<times> 'r \<times> world" where
  "Call E c rpc rpcRequest rpcResponse w =
     (case bind_io (newConnectionId c rpc) (getConnection E c) w of
        (Inl f, w1) \<Rightarrow> (Inl f, rpcResponse, w1)
      | (Inr _, w1) \<Rightarrow>
          (case sendRequest E c (newCall rpc rpcRequest rpcResponse) w1 of
             (Inl f, w2) \<Rightarrow> (Inl f, rpcResponse, w2)
           | (Inr _, w2) \<Rightarrow>
               (case readResponse E c (newCall rpc rpcRequest rpcResponse) w2 of
                  (Inl (Panic p), r, w3) \<Rightarrow> (Inl (Panic p), r, w3)
                | (Inl Hang, r, w3) \<Rightarrow> (Inl Hang, r, w3)
                | (err, r, w3) \<Rightarrow> (err, r, snd (Close w3)))))"

subsection \<open>What the trace shows\<close>

definition payload :: "event \<Rightarrow> bytes" where
  "payload e = (case e of Wrote b \<Rightarrow> b | _ \<Rightarrow> [])"

definition written :: "world \<Rightarrow> bytes" where
  \<comment> \<open>every byte written to the connection so far, in order\<close>
  "written w = concat (map payload (trace w))"

definition deadlines :: "world \<Rightarrow> nat" where
  \<comment> \<open>how many times a deadline has been set so far\<close>
  "deadlines w = length (filter (\<lambda>e. e = Deadline) (trace w))"

definition delimited :: "bytes \<Rightarrow> bytes" where
  \<comment> \<open>a part as \<open>writeDelimitedBytes\<close> puts it on the wire\<close>
  "delimited b = AppendVarint (length b) @ b"

text \<open>
  The total length in the spec's words: the sum over the parts of the size of the
  varint of the part's length plus the part's length. A frame is a 4-byte field followed
  by the delimited parts; the field, read as a big-endian \<open>int32\<close>, is that sum as long
  as the sum fits.
\<close>

definition frame_sum :: "bytes list \<Rightarrow> nat" where
  "frame_sum parts = (\<Sum>p\<leftarrow>parts. length (AppendVarint (length p)) + length p)"

definition framed :: "world \<Rightarrow> world \<Rightarrow> bytes list \<Rightarrow> bool" where
  "framed w w' parts =
     (\<exists>field. length field = 4 \<and>
        written w' = written w @ field @ concat (map delimited parts) \<and>
        (frame_sum parts < 2 ^ 31 \<longrightarrow>
           sint (ConvertBytesToFixed field) = int (frame_sum parts)))"

subsection \<open>Concrete inputs\<close>

text \<open>
  A small environment for evaluating the client on concrete inputs. Its decoders ignore
  the bytes and return a fixed header and a fixed SASL message; its response decoder
  stores the payload bytes; its encoders are as short as possible.
\<close>

definition demo_env ::
  "RpcResponseHeaderProto \<Rightarrow> RpcSaslProto \<Rightarrow> (string \<rightharpoonup> unit) \<Rightarrow> (unit, bytes, bytes, unit) env" where
  "demo_env hdr sasl tokens =
     \<lparr>marshalRpcHeader = (\<lambda>h. Inr (ReqClientId h)),
      marshalProcedure = (\<lambda>p. Inr (map (of_nat \<circ> of_char) (GetString (MethodName p)))),
      marshalRequest = Inr,
      marshalContext = (\<lambda>c. Inr (map (of_nat \<circ> of_char) (Protocol c))),
      marshalSasl = (\<lambda>m. Inr (Token m)),
      unmarshalHeader = (\<lambda>b m. (None, hdr)),
      unmarshalSasl = (\<lambda>b m. (None, sasl)),
      unmarshalResponse = (\<lambda>b r. (None, b)),
      userTokens = tokens,
      GetDigestMD5ChallengeResponse = (\<lambda>p s c t. Inr c),
      CreateSimpleUGIProto = (),
      RPC_HEADER = [0x68, 0x72, 0x70, 0x63],
      VERSION = [9],
      serviceClassBytes = [0],
      authProtocolBytes = (\<lambda>a. case a of AUTH_PROTOCOL_NONE \<Rightarrow> [0] | AUTH_PROTOCOL_SASL \<Rightarrow> [0xDF]),
      RPC_PROTOCOL_BUFFFER = ''RPC_PROTOCOL_BUFFER'',
      RPC_FINAL_PACKET = ''RPC_FINAL_PACKET'',
      RPC_DEFAULT_RETRY_COUNT = - 1\<rparr>"

definition demo_uuid :: bytes where
  "demo_uuid = [1, 2, 3, 4, 5, 6, 7, 8, 9, 10, 11, 12, 13, 14, 15, 16]"

definition demo_client :: "unit Client" where
  "demo_client =
     \<lparr>ClientUUID = Some demo_uuid, Ugi = (), RealUser = Some ''yarn'',
      ServerAddress = ''nm:8041'', TCPNoDelay = True\<rparr>"

definition demo_rpc :: RequestHeaderProto where
  "demo_rpc = \<lparr>MethodName = Some ''stop'', DeclaringClassProtocolName = Some ''cm''\<rparr>"

definition demo_world :: "string option list \<Rightarrow> arrival list \<Rightarrow> world" where
  "demo_world writes arrivals =
     \<lparr>dial_err = None, nodelay_err = None, deadline_errs = [], write_errs = writes,
      incoming = arrivals, trace = [], is_open = False\<rparr>"

definition ok_header :: RpcResponseHeaderProto where
  "ok_header = empty_RpcResponseHeaderProto\<lparr>Status := Some SUCCESS\<rparr>"

definition long_id_header :: RpcResponseHeaderProto where
  \<comment> \<open>the caller's sixteen bytes and one more\<close>
  "long_id_header = ok_header\<lparr>ClientId := Some \<lparr>elems = demo_uuid @ [99], spare = []\<rparr>\<rparr>"

definition other_id_header :: RpcResponseHeaderProto where
  "other_id_header = ok_header\<lparr>ClientId := Some \<lparr>elems = replicate 16 0, spare = []\<rparr>\<rparr>"

definition zero_tail_uuid :: bytes where
  "zero_tail_uuid = [1, 2, 3, 4, 5, 6, 7, 8, 9, 0, 0, 0, 0, 0, 0, 0]"

definition zero_tail_client :: "unit Client" where
  "zero_tail_client = demo_client\<lparr>ClientUUID := Some zero_tail_uuid\<rparr>"

definition short_id_header :: RpcResponseHeaderProto where
  \<comment> \<open>nine bytes in a backing array of sixteen\<close>
  "short_id_header =
     ok_header\<lparr>ClientId := Some \<lparr>elems = [1, 2, 3, 4, 5, 6, 7, 8, 9], spare = replicate 7 0\<rparr>\<rparr>"

definition empty_id_header :: RpcResponseHeaderProto where
  "empty_id_header = ok_header\<lparr>ClientId := Some \<lparr>elems = [], spare = []\<rparr>\<rparr>"

definition io_error_header :: RpcResponseHeaderProto where
  "io_error_header =
     empty_RpcResponseHeaderProto
       \<lparr>Status := Some ERROR, ExceptionClassName := Some ''java.io.IOException'',
        ErrorMsg := Some ''boom''\<rparr>"

definition big_part :: bytes where
  \<comment> \<open>a message of \<open>2 ^ 31 - 1\<close> bytes\<close>
  "big_part = replicate (2 ^ 31 - 1) 0"

definition big_rpc_env :: "(unit, bytes, bytes, unit) env" where
  \<comment> \<open>the procedure header marshals to \<open>2 ^ 31 - 1\<close> bytes too\<close>
  "big_rpc_env =
     (demo_env ok_header empty_RpcSaslProto Map.empty)\<lparr>marshalProcedure := (\<lambda>p. Inr big_part)\<rparr>"

definition demo_tokens :: "string \<rightharpoonup> unit" where
  "demo_tokens = [''nm:8041'' \<mapsto> ()]"

definition no_auths_reply :: RpcSaslProto where
  "no_auths_reply = \<lparr>State = Some NEGOTIATE, Token = [], Auths = []\<rparr>"

definition kerberos_auth :: SaslAuth where
  "kerberos_auth =
     \<lparr>Method = Some ''KERBEROS'', Mechanism = Some ''GSSAPI'', AuthProtocolName = Some ''nm'',
      ServerId = Some ''host'', Challenge = None\<rparr>"

definition token_auth :: SaslAuth where
  "token_auth =
     \<lparr>Method = Some ''TOKEN'', Mechanism = Some ''DIGEST-MD5'', AuthProtocolName = Some ''nm'',
      ServerId = Some ''default'', Challenge = Some [1, 2, 3]\<rparr>"

definition kerberos_first_reply :: RpcSaslProto where
  "kerberos_first_reply =
     \<lparr>State = Some NEGOTIATE, Token = [], Auths = [kerberos_auth, token_auth]\<rparr>"

definition sasl_env :: "RpcSaslProto \<Rightarrow> (unit, bytes, bytes, unit) env" where
  \<comment> \<open>a token for the server is at hand; every SASL frame decodes to \<open>reply\<close>\<close>
  "sasl_env reply = demo_env ok_header reply demo_tokens"

definition demo_connection_id :: connection_id where
  "demo_connection_id =
     \<lparr>user = ''yarn'', protocol = ''cm'', address = ''nm:8041'', ConnClientId = demo_uuid\<rparr>"

text \<open>
  The composite error in the spec's words: the status text, the exception class name
  or a placeholder, the error message or a placeholder, the error detail or a
  placeholder.
\<close>

definition errorDetails_spec :: "RpcResponseHeaderProto \<Rightarrow> RpcStatusProto \<Rightarrow> string list" where
  "errorDetails_spec h st =
     [RpcStatusProto_String st,
      (case ExceptionClassName h of None \<Rightarrow> ''ServerDidNotSetExceptionClassName'' | Some s \<Rightarrow> s),
      (case ErrorMsg h of None \<Rightarrow> ''ServerDidNotSetErrorMsg'' | Some s \<Rightarrow> s),
      (case ErrorDetail h of None \<Rightarrow> ''ServerDidNotSetErrorDetail'' | Some s \<Rightarrow> s)]"


section \<open>Properties\<close>

subsection \<open>The codec\<close>

lemma sizeVarint_loop_nonneg:
  "0 \<le> x \<Longrightarrow> sizeVarint_loop x n = Some (n + int (length (AppendVarint (nat x))))"
proof (induction "nat x" arbitrary: x n rule: less_induct)
  case less
  show ?case
  proof (cases "x < 128")
    case True
    with less.prems have "x div 128 = 0" by simp
    moreover from True less.prems have "AppendVarint (nat x) = [of_nat (nat x)]"
      by (simp add: AppendVarint.simps)
    ultimately show ?thesis
      by (subst sizeVarint_loop.simps) (simp add: Let_def)
  next
    case False
    with less.prems have pos: "0 \<le> x div 128" "x div 128 \<noteq> 0" "nat (x div 128) < nat x"
      by auto
    have nd: "nat (x div 128) = nat x div 128"
      using less.prems by (simp add: nat_div_distrib)
    from False have "AppendVarint (nat x) =
        of_nat (nat x mod 128 + 128) # AppendVarint (nat x div 128)"
      by (subst AppendVarint.simps) simp
    moreover have "sizeVarint_loop (x div 128) (n + 1) =
        Some (n + 1 + int (length (AppendVarint (nat (x div 128)))))"
      using less.hyps [OF pos(3) pos(1)] .
    ultimately show ?thesis
      using pos nd by (subst sizeVarint_loop.simps) (simp add: Let_def)
  qed
qed

lemma sizeVarint_length: "sizeVarint (int n) = Some (int (length (AppendVarint n)))"
  using sizeVarint_loop_nonneg [of "int n" 0] by (simp add: sizeVarint_def)

lemma ConvertBytesToFixed_inverse: "ConvertBytesToFixed (ConvertFixedToBytes w) = w"
proof (rule bit_word_eqI)
  fix n :: nat
  assume n: "n < LENGTH(32)"
  consider "n < 8" | "8 \<le> n" "n < 16" | "16 \<le> n" "n < 24" | "24 \<le> n" "n < 32"
    using n by fastforce
  then show "bit (ConvertBytesToFixed (ConvertFixedToBytes w)) n = bit w n"
  proof cases
    case 1
    then show ?thesis by (auto simp add: ConvertFixedToBytes_def bit_simps)
  next
    case 2
    then show ?thesis by (auto simp add: ConvertFixedToBytes_def bit_simps)
  next
    case 3
    then show ?thesis by (auto simp add: ConvertFixedToBytes_def bit_simps)
  next
    case 4
    then show ?thesis by (auto simp add: ConvertFixedToBytes_def bit_simps)
  qed
qed

lemma ConsumeVarint_from_unterminated:
  "\<forall>x\<in>set b. 0x80 \<le> x \<Longrightarrow> k \<le> 9 \<Longrightarrow> snd (ConsumeVarint_from k v b) < 0"
proof (induction b arbitrary: k v)
  case Nil
  then show ?case by simp
next
  case (Cons a b)
  then show ?case
    by (auto simp: Let_def word_less_def word_le_def)
qed

lemma slice_negative: "lo < 0 \<Longrightarrow> slice s lo hi = None"
  by (simp add: slice_def)

lemma readDelimited_negative:
  assumes "snd (ConsumeVarint rawData) < 0"
  shows "readDelimited um rawData msg = Crashed ''slice bounds out of range''"
proof -
  obtain v n where vn: "ConsumeVarint rawData = (v, n)" by (cases "ConsumeVarint rawData")
  with assms have "n < 0" by simp
  with vn show ?thesis by (simp add: readDelimited_def slice_negative)
qed

lemma readDelimited_all_continuation:
  assumes "\<forall>x\<in>set rawData. 0x80 \<le> x"
  shows "readDelimited um rawData msg = Crashed ''slice bounds out of range''"
proof -
  from assms have "snd (ConsumeVarint rawData) < 0"
    unfolding ConsumeVarint_def by (intro ConsumeVarint_from_unterminated) simp_all
  then show ?thesis by (rule readDelimited_negative)
qed

subsection \<open>Malformed and empty frames\<close>

text \<open>
  C3. A buffer that starts with a varint that never terminates (every byte has the
  continuation bit) should make \<open>readDelimited\<close> return an error. The code tests the
  count of \<open>ConsumeVarint\<close> against 0, the count is negative, and the slice expression
  that follows panics.
\<close>

theorem readDelimited_unterminated_varint_panics:
  assumes "\<forall>x\<in>set rawData. 0x80 \<le> x"
  shows "readDelimited unmarshal rawData msg = Crashed ''slice bounds out of range''"
  using assms by (rule readDelimited_all_continuation)

theorem readDelimited_unterminated_varint_panics_witness:
  "readDelimited (unmarshalHeader (demo_env ok_header empty_RpcSaslProto Map.empty)) [0x80, 0xFF]
     empty_RpcResponseHeaderProto = Crashed ''slice bounds out of range''"
proof -
  have "\<forall>x\<in>set [0x80, 0xFF :: byte]. 0x80 \<le> x" by simp
  then show ?thesis by (rule readDelimited_unterminated_varint_panics)
qed

lemma Read4_chunk4:
  "length c = 4 \<Longrightarrow>
   Read 4 (w\<lparr>incoming := Chunk c # rest\<rparr>) =
     (Inr c, w\<lparr>incoming := rest, trace := trace w @ [Got 4 c]\<rparr>)"
  by (simp add: Read_def)

lemma ReadFull_0: "ReadFull 0 w = (Inr [], w)"
  by (simp add: ReadFull_def ReadFull_loop.simps)

lemma decodeResponse_empty:
  "decodeResponse E c rpcCall [] = (Inl (Panic ''slice bounds out of range''), response rpcCall)"
  by (simp add: decodeResponse_def readDelimited_all_continuation)

text \<open>
  C2. When the four bytes of the length prefix are all zero, \<open>readResponse\<close> should
  return a framing error. It reads no further byte, hands the empty frame to
  \<open>readDelimited\<close> and panics there.
\<close>

theorem readResponse_empty_frame_panics:
  "readResponse E c rpcCall (w\<lparr>incoming := Chunk [0, 0, 0, 0] # rest\<rparr>) =
     (Inl (Panic ''slice bounds out of range''), response rpcCall,
      w\<lparr>incoming := rest, trace := trace w @ [Got 4 [0, 0, 0, 0]]\<rparr>)"
  by (simp add: readResponse_def readFrame_def bind_io_def Read4_chunk4 pad4_def ReadFull_0
      decodeResponse_empty)

subsection \<open>The client id of the response header\<close>

text \<open>
  C10. When the client id of the response header is present and its capacity is below
  16 (a zero-length byte string, for one), \<open>checkRpcHeader\<close> panics in
  \<open>headerClientId[0:16]\<close> instead of returning an error.
\<close>

theorem checkRpcHeader_short_clientId_panics:
  assumes "ClientUUID c = Some callClientId" and "ClientId hdr = Some headerClientId"
    and "cap headerClientId < 16"
  shows "checkRpcHeader c hdr = Inl (Panic ''slice bounds out of range'')"
  using assms by (simp add: checkRpcHeader_def reslice16_def)

theorem checkRpcHeader_short_clientId_panics_witness:
  "checkRpcHeader demo_client empty_id_header = Inl (Panic ''slice bounds out of range'')"
proof -
  have "ClientUUID demo_client = Some demo_uuid" by (simp add: demo_client_def)
  moreover have "ClientId empty_id_header = Some \<lparr>elems = [], spare = []\<rparr>"
    by (simp add: empty_id_header_def)
  moreover have "cap \<lparr>elems = [], spare = []\<rparr> < 16" by (simp add: cap_def)
  ultimately show ?thesis by (rule checkRpcHeader_short_clientId_panics)
qed

subsection \<open>Errors of the server\<close>

text \<open>
  C7. For a response whose status is not SUCCESS the error should be made of the status
  text, the exception class name, the error message and the error detail (each of the
  last three or its placeholder). The three assignments of the code go to the slots 0,
  1 and 2 of the array instead of 1, 2 and 3: with the class name
  \<open>java.io.IOException\<close> and the message \<open>boom\<close> the status text is overwritten and the
  error says that the server did not set the message.
\<close>

theorem remote_error_loses_status_text:
  "fst (Call (demo_env io_error_header empty_RpcSaslProto Map.empty) demo_client demo_rpc [7, 7] []
          (demo_world [] [Chunk [0, 0, 0, 4], Chunk [1, 0, 1, 42]])) =
     Inl (Failure ''java.io.IOException:boom:ServerDidNotSetErrorMsg:ServerDidNotSetErrorDetail'') \<and>
   Join (errorDetails_spec io_error_header ERROR) '':'' =
     ''ERROR:java.io.IOException:boom:ServerDidNotSetErrorDetail''"
  by code_simp

subsection \<open>What is written\<close>

lemma bind_io_Inr:
  "bind_io m f w = (Inr y, w') \<longleftrightarrow> (\<exists>x w1. m w = (Inr x, w1) \<and> f x w1 = (Inr y, w'))"
  by (auto simp add: bind_io_def split: prod.splits sum.splits)

lemma written_SetDeadline: "SetDeadline w = (r, w') \<Longrightarrow> written w' = written w"
  by (auto simp add: SetDeadline_def next_outcome_def written_def payload_def
      split: list.splits option.splits)

lemma written_Write: "Write b w = (Inr u, w') \<Longrightarrow> written w' = written w @ b"
  by (auto simp add: Write_def next_outcome_def written_def payload_def
      split: list.splits option.splits)

lemma written_Read: "Read n w = (r, w') \<Longrightarrow> written w' = written w"
  by (auto simp add: Read_def written_def payload_def
      split: list.splits arrival.splits if_splits)

lemma written_writeDelimitedBytes:
  "writeDelimitedBytes b w = (Inr u, w') \<Longrightarrow> written w' = written w @ delimited b"
  by (auto simp add: writeDelimitedBytes_def bind_io_Inr delimited_def dest!: written_Write)

lemma sized_eq: "sized b = return_io (int (length (delimited b)))"
  by (simp add: sized_def sizeVarint_length delimited_def add.commute)

lemma length_ConvertFixedToBytes: "length (ConvertFixedToBytes x) = 4"
  by (simp add: ConvertFixedToBytes_def)

lemma sint_int32: "n < 2 ^ 31 \<Longrightarrow> sint (of_nat n :: int32) = int n"
proof -
  assume "n < 2 ^ 31"
  then have "- (2 ^ 31) \<le> int n" "int n < 2 ^ 31" by simp_all
  then have "signed_take_bit 31 (int n) = int n" by (rule signed_take_bit_int_eq_self)
  then show ?thesis by (simp add: signed_of_nat)
qed

lemma length_frame: "length (concat (map delimited parts)) = frame_sum parts"
  by (induction parts) (simp_all add: frame_sum_def delimited_def)

lemma framedI:
  assumes "written w' = written w @ ConvertFixedToBytes (word_of_int (int (frame_sum parts)))
             @ concat (map delimited parts)"
  shows "framed w w' parts"
  unfolding framed_def
  using assms
  by (intro exI [of _ "ConvertFixedToBytes (word_of_int (int (frame_sum parts)))"])
     (simp add: length_ConvertFixedToBytes ConvertBytesToFixed_inverse sint_int32)

lemma sendRequest_framed:
  assumes "sendRequest E c rpcCall w = (Inr (), w')"
  shows "\<exists>clientId h p q.
           ClientUUID c = Some clientId \<and>
           marshalRpcHeader E
             \<lparr>RpcKind = RPC_PROTOCOL_BUFFFER E, RpcOp = RPC_FINAL_PACKET E, CallId = callId rpcCall,
              ReqClientId = clientId, RetryCount = retryCount rpcCall\<rparr> = Inr h \<and>
           marshalProcedure E (procedure rpcCall) = Inr p \<and>
           marshalRequest E (request rpcCall) = Inr q \<and>
           framed w w' [h, p, q]"
proof -
  from assms obtain clientId h p q w1 w2 w3 w4 w5 where
    dl: "SetDeadline w = (Inr (), w1)"
    and cid: "ClientUUID c = Some clientId"
    and h: "marshalRpcHeader E
             \<lparr>RpcKind = RPC_PROTOCOL_BUFFFER E, RpcOp = RPC_FINAL_PACKET E, CallId = callId rpcCall,
              ReqClientId = clientId, RetryCount = retryCount rpcCall\<rparr> = Inr h"
    and p: "marshalProcedure E (procedure rpcCall) = Inr p"
    and q: "marshalRequest E (request rpcCall) = Inr q"
    and w2: "Write (ConvertFixedToBytes (word_of_int
               (int (length (delimited h)) + int (length (delimited p)) + int (length (delimited q))))) w1
             = (Inr (), w2)"
    and w3: "writeDelimitedBytes h w2 = (Inr (), w3)"
    and w4: "writeDelimitedBytes p w3 = (Inr (), w4)"
    and w5: "writeDelimitedBytes q w4 = (Inr (), w')"
    by (auto simp add: sendRequest_def bind_io_Inr sized_eq return_io_def fail_io_def
        lift_err_def deref_def split: option.splits sum.splits)
  have "int (length (delimited h)) + int (length (delimited p)) + int (length (delimited q))
      = int (frame_sum [h, p, q])"
    by (simp add: frame_sum_def delimited_def)
  with w2 have w2': "Write (ConvertFixedToBytes (word_of_int (int (frame_sum [h, p, q])))) w1
      = (Inr (), w2)" by simp
  have "written w' = written w @ ConvertFixedToBytes (word_of_int (int (frame_sum [h, p, q])))
      @ concat (map delimited [h, p, q])"
    using written_SetDeadline [OF dl] written_Write [OF w2'] written_writeDelimitedBytes [OF w3]
      written_writeDelimitedBytes [OF w4] written_writeDelimitedBytes [OF w5]
    by simp
  then have "framed w w' [h, p, q]" by (rule framedI)
  with cid h p q show ?thesis by blast
qed

lemma writeConnectionContext_framed:
  assumes "writeConnectionContext E c connectionId authProtocol w = (Inr (), w')"
  shows "\<exists>clientId h x.
           ClientUUID c = Some clientId \<and>
           marshalRpcHeader E
             \<lparr>RpcKind = RPC_PROTOCOL_BUFFFER E, RpcOp = RPC_FINAL_PACKET E, CallId = - 3,
              ReqClientId = clientId, RetryCount = RPC_DEFAULT_RETRY_COUNT E\<rparr> = Inr h \<and>
           marshalContext E
             \<lparr>UserInfo = CreateSimpleUGIProto E, Protocol = protocol connectionId\<rparr> = Inr x \<and>
           framed w w' [h, x]"
proof -
  from assms obtain clientId h x w1 w2 w3 where
    dl: "SetDeadline w = (Inr (), w1)"
    and cid: "ClientUUID c = Some clientId"
    and h: "marshalRpcHeader E
             \<lparr>RpcKind = RPC_PROTOCOL_BUFFFER E, RpcOp = RPC_FINAL_PACKET E, CallId = - 3,
              ReqClientId = clientId, RetryCount = RPC_DEFAULT_RETRY_COUNT E\<rparr> = Inr h"
    and x: "marshalContext E
             \<lparr>UserInfo = CreateSimpleUGIProto E, Protocol = protocol connectionId\<rparr> = Inr x"
    and w2: "Write (ConvertFixedToBytes (word_of_int
               (int (length (delimited h)) + int (length (delimited x))))) w1 = (Inr (), w2)"
    and w3: "writeDelimitedBytes h w2 = (Inr (), w3)"
    and w4: "writeDelimitedBytes x w3 = (Inr (), w')"
    by (auto simp add: writeConnectionContext_def bind_io_Inr sized_eq return_io_def fail_io_def
        lift_err_def deref_def split: option.splits sum.splits)
  have "int (length (delimited h)) + int (length (delimited x)) = int (frame_sum [h, x])"
    by (simp add: frame_sum_def delimited_def)
  with w2 have w2': "Write (ConvertFixedToBytes (word_of_int (int (frame_sum [h, x])))) w1
      = (Inr (), w2)" by simp
  have "written w' = written w @ ConvertFixedToBytes (word_of_int (int (frame_sum [h, x])))
      @ concat (map delimited [h, x])"
    using written_SetDeadline [OF dl] written_Write [OF w2'] written_writeDelimitedBytes [OF w3]
      written_writeDelimitedBytes [OF w4]
    by simp
  then have "framed w w' [h, x]" by (rule framedI)
  with cid h x show ?thesis by blast
qed

lemma sendSaslMessage_framed:
  assumes "sendSaslMessage E message w = (Inr (), w')"
  shows "\<exists>h s.
           marshalRpcHeader E
             \<lparr>RpcKind = RPC_PROTOCOL_BUFFFER E, RpcOp = RPC_FINAL_PACKET E, CallId = - 33,
              ReqClientId = [], RetryCount = - 1\<rparr> = Inr h \<and>
           marshalSasl E message = Inr s \<and>
           framed w w' [h, s]"
proof -
  from assms obtain h s w1 w2 w3 where
    h: "marshalRpcHeader E
             \<lparr>RpcKind = RPC_PROTOCOL_BUFFFER E, RpcOp = RPC_FINAL_PACKET E, CallId = - 33,
              ReqClientId = [], RetryCount = - 1\<rparr> = Inr h"
    and s: "marshalSasl E message = Inr s"
    and dl: "SetDeadline w = (Inr (), w1)"
    and w2: "Write (ConvertFixedToBytes (word_of_int
               (int (length (delimited h)) + int (length (delimited s))))) w1 = (Inr (), w2)"
    and w3: "writeDelimitedBytes h w2 = (Inr (), w3)"
    and w4: "writeDelimitedBytes s w3 = (Inr (), w')"
    by (auto simp add: sendSaslMessage_def bind_io_Inr sized_eq return_io_def fail_io_def
        lift_err_def split: sum.splits)
  have "int (length (delimited h)) + int (length (delimited s)) = int (frame_sum [h, s])"
    by (simp add: frame_sum_def delimited_def)
  with w2 have w2': "Write (ConvertFixedToBytes (word_of_int (int (frame_sum [h, s])))) w1
      = (Inr (), w2)" by simp
  have "written w' = written w @ ConvertFixedToBytes (word_of_int (int (frame_sum [h, s])))
      @ concat (map delimited [h, s])"
    using written_SetDeadline [OF dl] written_Write [OF w2'] written_writeDelimitedBytes [OF w3]
      written_writeDelimitedBytes [OF w4]
    by simp
  then have "framed w w' [h, s]" by (rule framedI)
  with h s show ?thesis by blast
qed

subsection \<open>The total length of a frame\<close>

text \<open>
  C6. Every frame sent (the call by \<open>sendRequest\<close>, the connection context by
  \<open>writeConnectionContext\<close>, a SASL message by \<open>sendSaslMessage\<close>) is a 4-byte field
  followed by its delimited parts, and the field, read as a big-endian \<open>int32\<close>, is the
  sum over the parts of the size of the varint of the length plus the length, whenever
  that sum is below \<open>2 ^ 31\<close>. \<open>sizeVarint\<close> is the length of the varint that
  \<open>AppendVarint\<close> writes, for every length.
\<close>

theorem total_length_field_exact:
  "(sendRequest E c rpcCall w = (Inr (), w') \<longrightarrow>
      (\<exists>clientId h p q.
         ClientUUID c = Some clientId \<and>
         marshalRpcHeader E
           \<lparr>RpcKind = RPC_PROTOCOL_BUFFFER E, RpcOp = RPC_FINAL_PACKET E, CallId = callId rpcCall,
            ReqClientId = clientId, RetryCount = retryCount rpcCall\<rparr> = Inr h \<and>
         marshalProcedure E (procedure rpcCall) = Inr p \<and>
         marshalRequest E (request rpcCall) = Inr q \<and>
         framed w w' [h, p, q])) \<and>
   (writeConnectionContext E c connectionId authProtocol w = (Inr (), w') \<longrightarrow>
      (\<exists>clientId h x.
         ClientUUID c = Some clientId \<and>
         marshalRpcHeader E
           \<lparr>RpcKind = RPC_PROTOCOL_BUFFFER E, RpcOp = RPC_FINAL_PACKET E, CallId = - 3,
            ReqClientId = clientId, RetryCount = RPC_DEFAULT_RETRY_COUNT E\<rparr> = Inr h \<and>
         marshalContext E
           \<lparr>UserInfo = CreateSimpleUGIProto E, Protocol = protocol connectionId\<rparr> = Inr x \<and>
         framed w w' [h, x])) \<and>
   (sendSaslMessage E message w = (Inr (), w') \<longrightarrow>
      (\<exists>h s.
         marshalRpcHeader E
           \<lparr>RpcKind = RPC_PROTOCOL_BUFFFER E, RpcOp = RPC_FINAL_PACKET E, CallId = - 33,
            ReqClientId = [], RetryCount = - 1\<rparr> = Inr h \<and>
         marshalSasl E message = Inr s \<and>
         framed w w' [h, s]))"
  by (intro conjI impI sendRequest_framed writeConnectionContext_framed sendSaslMessage_framed)

text \<open>
  The three senders on concrete inputs; the request payload has 128 bytes, the first
  length whose varint takes two bytes.
\<close>

theorem total_length_field_exact_witness:
  "framed (demo_world [] [])
     (snd (sendRequest (demo_env ok_header empty_RpcSaslProto Map.empty) demo_client
        (newCall demo_rpc (replicate 128 7) []) (demo_world [] [])))
     [demo_uuid, [115, 116, 111, 112], replicate 128 7] \<and>
   framed (demo_world [] [])
     (snd (writeConnectionContext (demo_env ok_header empty_RpcSaslProto Map.empty) demo_client
        demo_connection_id AUTH_PROTOCOL_NONE (demo_world [] [])))
     [demo_uuid, [99, 109]] \<and>
   framed (demo_world [] [])
     (snd (sendSaslMessage (demo_env ok_header empty_RpcSaslProto Map.empty) negotiate_message
        (demo_world [] [])))
     [[], []]"
proof -
  define E where "E = demo_env ok_header empty_RpcSaslProto Map.empty"
  define w where "w = demo_world [] []"
  define w1 where "w1 = snd (sendRequest E demo_client (newCall demo_rpc (replicate 128 7) []) w)"
  define w2 where
    "w2 = snd (writeConnectionContext E demo_client demo_connection_id AUTH_PROTOCOL_NONE w)"
  define w3 where "w3 = snd (sendSaslMessage E negotiate_message w)"
  have s1: "sendRequest E demo_client (newCall demo_rpc (replicate 128 7) []) w = (Inr (), w1)"
    unfolding w1_def w_def E_def by code_simp
  have s2: "writeConnectionContext E demo_client demo_connection_id AUTH_PROTOCOL_NONE w
      = (Inr (), w2)"
    unfolding w2_def w_def E_def by code_simp
  have s3: "sendSaslMessage E negotiate_message w = (Inr (), w3)"
    unfolding w3_def w_def E_def by code_simp
  have "framed w w1 [demo_uuid, [115, 116, 111, 112], replicate 128 7]"
    using total_length_field_exact [where E = E and c = demo_client and w = w and w' = w1
        and rpcCall = "newCall demo_rpc (replicate 128 7) []"] s1
    by (auto simp add: E_def demo_env_def demo_client_def newCall_def demo_rpc_def GetString_def)
  moreover have "framed w w2 [demo_uuid, [99, 109]]"
    using total_length_field_exact [where E = E and c = demo_client and w = w and w' = w2
        and connectionId = demo_connection_id and authProtocol = AUTH_PROTOCOL_NONE] s2
    by (auto simp add: E_def demo_env_def demo_client_def demo_connection_id_def)
  moreover have "framed w w3 [[], []]"
    using total_length_field_exact [where E = E and w = w and w' = w3
        and message = negotiate_message] s3
    by (auto simp add: E_def demo_env_def negotiate_message_def)
  ultimately show ?thesis
    unfolding w1_def w2_def w3_def w_def E_def by simp
qed

lemma length_big_part: "length big_part = 2147483647"
  by (simp add: big_part_def)

lemma length_demo_uuid: "length demo_uuid = 16"
  by (simp add: demo_uuid_def)

lemma AppendVarint_big: "AppendVarint 2147483647 = [0xFF, 0xFF, 0xFF, 0xFF, 0x07]"
  by (simp add: AppendVarint.simps)

lemma AppendVarint_16: "AppendVarint 16 = [16]"
  by (simp add: AppendVarint.simps)

lemma big_sent:
  "sendRequest big_rpc_env demo_client (newCall demo_rpc big_part []) (demo_world [] []) =
     (Inr (), (demo_world [] [])\<lparr>trace :=
        [Deadline, Wrote [0, 0, 0, 25], Wrote [16], Wrote demo_uuid,
         Wrote [0xFF, 0xFF, 0xFF, 0xFF, 0x07], Wrote big_part,
         Wrote [0xFF, 0xFF, 0xFF, 0xFF, 0x07], Wrote big_part]\<rparr>)"
  by (simp add: sendRequest_def big_rpc_env_def demo_env_def demo_client_def newCall_def
      demo_world_def length_demo_uuid bind_io_def SetDeadline_def next_outcome_def deref_def
      return_io_def fail_io_def lift_err_def sized_eq Write_def writeDelimitedBytes_def
      delimited_def length_big_part AppendVarint_big AppendVarint_16 ConvertFixedToBytes_def)

text \<open>
  The claim as it is written, for every request, fails when the parts add up to
  \<open>2 ^ 32\<close> bytes or more: \<open>int32(totalLength)\<close> keeps the low 32 bits. With a procedure
  header and a request of \<open>2 ^ 31 - 1\<close> bytes each the field says 25 and 4294967321
  bytes follow.
\<close>

theorem total_length_field_wraps:
  "fst (sendRequest big_rpc_env demo_client (newCall demo_rpc big_part []) (demo_world [] [])) =
     Inr () \<and>
   take 4 (written (snd (sendRequest big_rpc_env demo_client (newCall demo_rpc big_part [])
      (demo_world [] [])))) = [0, 0, 0, 25] \<and>
   length (drop 4 (written (snd (sendRequest big_rpc_env demo_client (newCall demo_rpc big_part [])
      (demo_world [] []))))) = 4294967321"
  by (simp add: big_sent written_def payload_def length_demo_uuid length_big_part)

subsection \<open>The client id of the response header, continued\<close>

lemma Call_rejects_after_send:
  assumes conn: "bind_io (newConnectionId c rpc) (getConnection E c) w = (Inr u, w1)"
    and sent: "sendRequest E c (newCall rpc rpcRequest rpcResponse) w1 = (Inr v, w2)"
    and resp: "readResponse E c (newCall rpc rpcRequest rpcResponse) w2 = (Inl (Failure e), r, w3)"
  shows "Call E c rpc rpcRequest rpcResponse w = (Inl (Failure e), r, snd (Close w3))"
  using assms by (simp add: Call_def)

text \<open>
  What \<open>checkRpcHeader\<close> compares (client.go 486): the caller's client id with the first
  sixteen bytes of the backing array of the header's client id, not with the client id
  itself. The sibling check of the SASL path, \<open>checkSaslRpcHeader\<close>, compares the whole
  slice.
\<close>

lemma checkRpcHeader_compares_prefix:
  assumes "ClientUUID c = Some callClientId" and "ClientId hdr = Some headerClientId"
    and "16 \<le> cap headerClientId"
  shows "checkRpcHeader c hdr =
           (if take 16 (elems headerClientId @ spare headerClientId) = callClientId then Inr ()
            else Inl (Failure ''Incorrect clientId''))"
  using assms by (auto simp add: checkRpcHeader_def reslice16_def)

text \<open>
  When those sixteen bytes differ from the caller's client id, \<open>Call\<close> returns the error
  \<open>Incorrect clientId\<close>, closes the connection and returns the caller's response message as
  it was: the payload is not decoded.
\<close>

lemma differing_prefix_rejected:
  assumes conn: "bind_io (newConnectionId c rpc) (getConnection E c) w = (Inr (), w1)"
    and sent: "sendRequest E c (newCall rpc rpcRequest rpcResponse) w1 = (Inr (), w2)"
    and frame: "readFrame w2 = (Inr responseBytes, w3)"
    and decoded: "readDelimited (unmarshalHeader E) responseBytes empty_RpcResponseHeaderProto =
                Returned off None hdr"
    and ids: "ClientUUID c = Some callClientId" "ClientId hdr = Some headerClientId"
    and room: "16 \<le> cap headerClientId"
    and differ: "take 16 (elems headerClientId @ spare headerClientId) \<noteq> callClientId"
  shows "Call E c rpc rpcRequest rpcResponse w =
           (Inl (Failure ''Incorrect clientId''), rpcResponse, snd (Close w3))"
proof -
  have "checkRpcHeader c hdr = Inl (Failure ''Incorrect clientId'')"
    using ids room differ by (simp add: checkRpcHeader_compares_prefix)
  with decoded have "decodeResponse E c (newCall rpc rpcRequest rpcResponse) responseBytes =
      (Inl (Failure ''Incorrect clientId''), rpcResponse)"
    by (simp add: decodeResponse_def newCall_def)
  with frame have "readResponse E c (newCall rpc rpcRequest rpcResponse) w2 =
      (Inl (Failure ''Incorrect clientId''), rpcResponse, w3)"
    by (simp add: readResponse_def)
  with conn sent show ?thesis by (rule Call_rejects_after_send)
qed

lemma differing_clientId_rejected:
  "fst (Call (demo_env other_id_header empty_RpcSaslProto Map.empty) demo_client demo_rpc [7, 7] []
      (demo_world [] [Chunk [0, 0, 0, 4], Chunk [1, 0, 1, 42]])) =
     Inl (Failure ''Incorrect clientId'') \<and>
   fst (snd (Call (demo_env other_id_header empty_RpcSaslProto Map.empty) demo_client demo_rpc
      [7, 7] [] (demo_world [] [Chunk [0, 0, 0, 4], Chunk [1, 0, 1, 42]]))) = []"
  by code_simp

text \<open>
  C4. Every response whose header carries a client id that is not equal to the caller's,
  byte for byte, should be rejected without decoding the payload. \<open>Call\<close> does not do so:
  a header whose client id is the caller's sixteen bytes followed by one more is
  accepted, \<open>Call\<close> returns no error and the payload is decoded into the response
  message.
\<close>

theorem longer_clientId_accepted:
  "ClientUUID demo_client = Some demo_uuid \<and>
   ClientId long_id_header = Some \<lparr>elems = demo_uuid @ [99], spare = []\<rparr> \<and>
   demo_uuid @ [99] \<noteq> demo_uuid \<and>
   fst (Call (demo_env long_id_header empty_RpcSaslProto Map.empty) demo_client demo_rpc [7, 7] []
          (demo_world [] [Chunk [0, 0, 0, 4], Chunk [1, 0, 1, 42]])) = Inr () \<and>
   fst (snd (Call (demo_env long_id_header empty_RpcSaslProto Map.empty) demo_client demo_rpc
          [7, 7] [] (demo_world [] [Chunk [0, 0, 0, 4], Chunk [1, 0, 1, 42]]))) = [42]"
  by code_simp

text \<open>
  The same holds for a client id of nine bytes in a backing array of sixteen, when the
  caller's client id is those nine bytes followed by seven zeros: the comparison reads
  past the end of the client id, finds the caller's bytes, and the response is accepted.
\<close>

lemma shorter_clientId_accepted:
  "ClientUUID zero_tail_client = Some zero_tail_uuid \<and>
   ClientId short_id_header =
     Some \<lparr>elems = [1, 2, 3, 4, 5, 6, 7, 8, 9], spare = replicate 7 0\<rparr> \<and>
   [1, 2, 3, 4, 5, 6, 7, 8, 9] \<noteq> zero_tail_uuid \<and>
   fst (Call (demo_env short_id_header empty_RpcSaslProto Map.empty) zero_tail_client demo_rpc
          [7, 7] [] (demo_world [] [Chunk [0, 0, 0, 4], Chunk [1, 0, 1, 42]])) = Inr () \<and>
   fst (snd (Call (demo_env short_id_header empty_RpcSaslProto Map.empty) zero_tail_client
          demo_rpc [7, 7] [] (demo_world [] [Chunk [0, 0, 0, 4], Chunk [1, 0, 1, 42]]))) = [42]"
  by code_simp

subsection \<open>Short reads\<close>

text \<open>
  C8. Both receive paths should read exactly four bytes and then exactly the announced
  number of bytes, going on after a short read, and report a frame that ends early as
  an I/O error. \<open>readResponse\<close> does so for the body (\<open>io.ReadFull\<close>);
  \<open>receiveSaslMessage\<close> reads the body with one \<open>Read\<close> and drops the count. When two of
  four announced bytes arrive and the stream ends, the SASL path hands the two bytes
  and two zeros to the decoder without reading again and without an I/O error (the
  decoder of \<open>demo_env\<close> takes any bytes, so a message is returned), where the call path
  returns \<open>unexpected EOF\<close>.
  Both paths read the prefix with one \<open>Read\<close>: a prefix that arrives in two segments
  is taken for the length 0 (and the empty frame then panics, see C2).
\<close>

theorem short_reads_accepted:
  "fst (receiveSaslMessage (demo_env ok_header empty_RpcSaslProto Map.empty)
          (demo_world [] [Chunk [0, 0, 0, 4], Chunk [1, 0]])) = Inr empty_RpcSaslProto \<and>
   fst (readResponse (demo_env ok_header empty_RpcSaslProto Map.empty) demo_client
          (newCall demo_rpc [7, 7] []) (demo_world [] [Chunk [0, 0, 0, 4], Chunk [1, 0]])) =
     Inl (Failure ''unexpected EOF'') \<and>
   fst (readResponse (demo_env ok_header empty_RpcSaslProto Map.empty) demo_client
          (newCall demo_rpc [7, 7] [])
          (demo_world [] [Chunk [0, 0], Chunk [0, 4], Chunk [1, 0, 1, 42]])) =
     Inl (Panic ''slice bounds out of range'')"
  by code_simp

subsection \<open>Closing the connection\<close>

text \<open>
  C1. The connection should be closed on every path out of \<open>Call\<close>. \<open>Close\<close> is called
  after \<open>readResponse\<close> only. When the first write of the request fails (the tenth write
  on the connection), or the first write of the connection header, \<open>Call\<close> returns the
  error and the connection is still open; when the response cannot be read, \<open>Call\<close>
  returns the error and the connection is closed.
\<close>

theorem Call_leaves_connection_open:
  "fst (Call (demo_env ok_header empty_RpcSaslProto Map.empty) demo_client demo_rpc [7, 7] []
     (demo_world (replicate 9 None @ [Some ''broken pipe'']) [])) = Inl (Failure ''broken pipe'') \<and>
   is_open (snd (snd (Call (demo_env ok_header empty_RpcSaslProto Map.empty) demo_client demo_rpc
     [7, 7] [] (demo_world (replicate 9 None @ [Some ''broken pipe'']) [])))) \<and>
   fst (Call (demo_env ok_header empty_RpcSaslProto Map.empty) demo_client demo_rpc [7, 7] []
     (demo_world [Some ''broken pipe''] [])) = Inl (Failure ''broken pipe'') \<and>
   is_open (snd (snd (Call (demo_env ok_header empty_RpcSaslProto Map.empty) demo_client demo_rpc
     [7, 7] [] (demo_world [Some ''broken pipe''] [])))) \<and>
   fst (Call (demo_env ok_header empty_RpcSaslProto Map.empty) demo_client demo_rpc [7, 7] []
     (demo_world [] [])) = Inl (Failure ''EOF'') \<and>
   \<not> is_open (snd (snd (Call (demo_env ok_header empty_RpcSaslProto Map.empty) demo_client demo_rpc
     [7, 7] [] (demo_world [] []))))"
  by code_simp

subsection \<open>Deadlines\<close>

lemma deadlines_Read: "Read n w = (r, w') \<Longrightarrow> deadlines w' = deadlines w"
  by (auto simp add: Read_def deadlines_def split: list.splits arrival.splits if_splits)

lemma deadlines_ReadFull_loop:
  "ReadFull_loop need got w = (r, w') \<Longrightarrow> deadlines w' = deadlines w"
proof (induction need got w arbitrary: r w' rule: ReadFull_loop.induct)
  case (1 need got w)
  show ?case
  proof (cases "need = 0")
    case True
    with "1.prems" show ?thesis by (simp add: ReadFull_loop.simps)
  next
    case False
    obtain x w1 where rd: "Read (max need 4096) w = (x, w1)"
      by (cases "Read (max need 4096) w")
    then have d1: "deadlines w1 = deadlines w" by (rule deadlines_Read)
    show ?thesis
    proof (cases x)
      case (Inl f)
      with False rd "1.prems" have "w' = w1"
        by (cases f) (auto simp add: ReadFull_loop.simps [of need got w])
      with d1 show ?thesis by simp
    next
      case (Inr chunk)
      show ?thesis
      proof (cases "need \<le> length chunk")
        case True
        with False rd Inr "1.prems" have "w' = w1"
          by (auto simp add: ReadFull_loop.simps [of need got w])
        with d1 show ?thesis by simp
      next
        case short: False
        with False rd Inr "1.prems" have step:
          "ReadFull_loop (need - length chunk) (got @ chunk) w1 = (r, w')"
          by (auto simp add: ReadFull_loop.simps [of need got w])
        have "deadlines w' = deadlines w1"
          by (rule "1.IH" [OF False rd [symmetric] Inr short step])
        with d1 show ?thesis by simp
      qed
    qed
  qed
qed

lemma deadlines_readFrame:
  assumes "readFrame w = (r, w')"
  shows "deadlines w' = deadlines w"
proof -
  obtain x w1 where rd: "Read 4 w = (x, w1)" by (cases "Read 4 w")
  then have d1: "deadlines w1 = deadlines w" by (rule deadlines_Read)
  show ?thesis
  proof (cases x)
    case (Inl f)
    with rd assms have "w' = w1" by (simp add: readFrame_def bind_io_def)
    with d1 show ?thesis by simp
  next
    case (Inr got)
    show ?thesis
    proof (cases "sint (ConvertBytesToFixed (pad4 got)) < 0")
      case True
      with rd Inr assms have "w' = w1" by (simp add: readFrame_def bind_io_def fail_io_def)
      with d1 show ?thesis by simp
    next
      case False
      with rd Inr assms have
        "ReadFull_loop (nat (sint (ConvertBytesToFixed (pad4 got)))) [] w1 = (r, w')"
        by (simp add: readFrame_def bind_io_def ReadFull_def)
      then have "deadlines w' = deadlines w1" by (rule deadlines_ReadFull_loop)
      with d1 show ?thesis by simp
    qed
  qed
qed

text \<open>
  C9. A deadline should be set before every read or write phase. Every phase of the
  handshake and \<open>sendRequest\<close> set one; \<open>readResponse\<close> sets none, for any input: its
  reads run under the deadline that \<open>sendRequest\<close> set before its writes. The trace of
  a whole call shows it: after the twelve events of the handshake come the deadline
  of \<open>sendRequest\<close>, its seven writes, the two reads of \<open>readResponse\<close> and the close.
\<close>

theorem readResponse_sets_no_deadline:
  "deadlines (snd (snd (readResponse E c rpcCall w))) = deadlines w \<and>
   drop 12 (trace (snd (snd
     (Call (demo_env ok_header empty_RpcSaslProto Map.empty) demo_client demo_rpc [7, 7] []
        (demo_world [] [Chunk [0, 0, 0, 4], Chunk [1, 0, 1, 42]]))))) =
     [Deadline, Wrote [0, 0, 0, 25], Wrote [16], Wrote demo_uuid, Wrote [4],
      Wrote [115, 116, 111, 112], Wrote [2], Wrote [7, 7],
      Got 4 [0, 0, 0, 4], Got 4096 [1, 0, 1, 42], Closed]"
proof
  obtain r w1 where f: "readFrame w = (r, w1)" by (cases "readFrame w")
  then have "deadlines w1 = deadlines w" by (rule deadlines_readFrame)
  with f show "deadlines (snd (snd (readResponse E c rpcCall w))) = deadlines w"
    by (auto simp add: readResponse_def split: sum.splits prod.splits)
next
  show "drop 12 (trace (snd (snd
     (Call (demo_env ok_header empty_RpcSaslProto Map.empty) demo_client demo_rpc [7, 7] []
        (demo_world [] [Chunk [0, 0, 0, 4], Chunk [1, 0, 1, 42]]))))) =
     [Deadline, Wrote [0, 0, 0, 25], Wrote [16], Wrote demo_uuid, Wrote [4],
      Wrote [115, 116, 111, 112], Wrote [2], Wrote [7, 7],
      Got 4 [0, 0, 0, 4], Got 4096 [1, 0, 1, 42], Closed]"
    by code_simp
qed

subsection \<open>The SASL negotiation\<close>

lemma written_receiveSaslMessage:
  "receiveSaslMessage E w = (r, w') \<Longrightarrow> written w' = written w"
  by (auto simp add: receiveSaslMessage_def readSaslFrame_def bind_io_def fail_io_def
      return_io_def Let_def
      split: prod.splits sum.splits if_splits
      dest!: written_Read written_SetDeadline)

text \<open>
  C5. Suppose a token is at hand, the connection header and the NEGOTIATE message have
  been sent, and the reply has been received. When the reply offers no mechanism, the
  negotiation and with it \<open>getConnection\<close> fail with \<open>No supported auth mechanisms!\<close>.
  When the first mechanism offered is not TOKEN with DIGEST-MD5, they fail with the
  unsupported-mechanism error, whatever mechanisms follow the first. In both cases the
  state is the one in which the reply was received, and nothing was written since the
  NEGOTIATE message: no INITIATE, and no connection context of an unauthenticated
  connection.
\<close>

theorem sasl_negotiation_rejects:
  assumes dialed: "setupConnection c w = (Inr (), wa)"
    and token: "findUsableTokenForService E (ServerAddress c) = Some t"
    and greeted: "writeConnectionHeader E AUTH_PROTOCOL_SASL wa = (Inr (), wb)"
    and sent: "sendSaslMessage E negotiate_message wb = (Inr (), w1)"
    and recv: "receiveSaslMessage E w1 = (Inr reply, w2)"
  shows "(Auths reply = [] \<longrightarrow>
            negotiateSimpleTokenAuth E c wb =
              (Inl (Failure ''No supported auth mechanisms!''), w2) \<and>
            getConnection E c connectionId w =
              (Inl (Failure ''No supported auth mechanisms!''), w2)) \<and>
         (\<forall>auth rest.
            Auths reply = auth # rest \<and>
            \<not> (GetString (Method auth) = ''TOKEN'' \<and> GetString (Mechanism auth) = ''DIGEST-MD5'') \<longrightarrow>
            negotiateSimpleTokenAuth E c wb =
              (Inl (Failure ''yarnauth only supports TOKEN/DIGEST-MD5 auth!''), w2) \<and>
            getConnection E c connectionId w =
              (Inl (Failure ''yarnauth only supports TOKEN/DIGEST-MD5 auth!''), w2)) \<and>
         written w2 = written w1"
proof -
  have conn: "getConnection E c connectionId w = negotiateSimpleTokenAuth E c wb"
    if "negotiateSimpleTokenAuth E c wb = (Inl f, w')" for f w'
    using dialed token greeted that by (simp add: getConnection_def bind_io_def)
  have none: "negotiateSimpleTokenAuth E c wb = (Inl (Failure ''No supported auth mechanisms!''), w2)"
    if "Auths reply = []"
    using sent recv that by (simp add: negotiateSimpleTokenAuth_def bind_io_def fail_io_def)
  have other: "negotiateSimpleTokenAuth E c wb =
      (Inl (Failure ''yarnauth only supports TOKEN/DIGEST-MD5 auth!''), w2)"
    if "Auths reply = auth # rest"
      "\<not> (GetString (Method auth) = ''TOKEN'' \<and> GetString (Mechanism auth) = ''DIGEST-MD5'')"
    for auth rest
    using sent recv that by (simp add: negotiateSimpleTokenAuth_def bind_io_def fail_io_def)
  have quiet: "written w2 = written w1" using recv by (rule written_receiveSaslMessage)
  show ?thesis
  proof (intro conjI allI impI)
    assume a: "Auths reply = []"
    show "negotiateSimpleTokenAuth E c wb =
        (Inl (Failure ''No supported auth mechanisms!''), w2)"
      using a by (rule none)
    then show "getConnection E c connectionId w =
        (Inl (Failure ''No supported auth mechanisms!''), w2)"
      using conn by simp
  next
    fix auth rest
    assume a: "Auths reply = auth # rest \<and>
      \<not> (GetString (Method auth) = ''TOKEN'' \<and> GetString (Mechanism auth) = ''DIGEST-MD5'')"
    show "negotiateSimpleTokenAuth E c wb =
        (Inl (Failure ''yarnauth only supports TOKEN/DIGEST-MD5 auth!''), w2)"
      using a by (intro other [of auth rest]) simp_all
    then show "getConnection E c connectionId w =
        (Inl (Failure ''yarnauth only supports TOKEN/DIGEST-MD5 auth!''), w2)"
      using conn by simp
  next
    show "written w2 = written w1" by (rule quiet)
  qed
qed

text \<open>
  A reply without mechanisms, and a reply that offers KERBEROS first and TOKEN with
  DIGEST-MD5 second.
\<close>

theorem sasl_negotiation_rejects_witness:
  "fst (getConnection (sasl_env no_auths_reply) demo_client demo_connection_id
          (demo_world [] [Chunk [0, 0, 0, 4], Chunk [1, 0, 1, 0]])) =
     Inl (Failure ''No supported auth mechanisms!'') \<and>
   fst (getConnection (sasl_env kerberos_first_reply) demo_client demo_connection_id
          (demo_world [] [Chunk [0, 0, 0, 4], Chunk [1, 0, 1, 0]])) =
     Inl (Failure ''yarnauth only supports TOKEN/DIGEST-MD5 auth!'')"
proof -
  define w where "w = demo_world [] [Chunk [0, 0, 0, 4], Chunk [1, 0, 1, 0]]"
  define wa where "wa = snd (setupConnection demo_client w)"
  have dialed: "setupConnection demo_client w = (Inr (), wa)"
    unfolding wa_def w_def by code_simp
  have first: "fst (getConnection (sasl_env no_auths_reply) demo_client demo_connection_id w) =
      Inl (Failure ''No supported auth mechanisms!'')"
  proof -
    define E where "E = sasl_env no_auths_reply"
    define wb where "wb = snd (writeConnectionHeader E AUTH_PROTOCOL_SASL wa)"
    define w1 where "w1 = snd (sendSaslMessage E negotiate_message wb)"
    define w2 where "w2 = snd (receiveSaslMessage E w1)"
    have token: "findUsableTokenForService E (ServerAddress demo_client) = Some ()"
      unfolding E_def by code_simp
    have greeted: "writeConnectionHeader E AUTH_PROTOCOL_SASL wa = (Inr (), wb)"
      unfolding wb_def wa_def w_def E_def by code_simp
    have sent: "sendSaslMessage E negotiate_message wb = (Inr (), w1)"
      unfolding w1_def wb_def wa_def w_def E_def by code_simp
    have recv: "receiveSaslMessage E w1 = (Inr no_auths_reply, w2)"
      unfolding w2_def w1_def wb_def wa_def w_def E_def by code_simp
    have "Auths no_auths_reply = []" by (simp add: no_auths_reply_def)
    with sasl_negotiation_rejects [OF dialed token greeted sent recv, of demo_connection_id]
    show ?thesis unfolding E_def by simp
  qed
  have second: "fst (getConnection (sasl_env kerberos_first_reply) demo_client demo_connection_id w) =
      Inl (Failure ''yarnauth only supports TOKEN/DIGEST-MD5 auth!'')"
  proof -
    define E where "E = sasl_env kerberos_first_reply"
    define wb where "wb = snd (writeConnectionHeader E AUTH_PROTOCOL_SASL wa)"
    define w1 where "w1 = snd (sendSaslMessage E negotiate_message wb)"
    define w2 where "w2 = snd (receiveSaslMessage E w1)"
    have token: "findUsableTokenForService E (ServerAddress demo_client) = Some ()"
      unfolding E_def by code_simp
    have greeted: "writeConnectionHeader E AUTH_PROTOCOL_SASL wa = (Inr (), wb)"
      unfolding wb_def wa_def w_def E_def by code_simp
    have sent: "sendSaslMessage E negotiate_message wb = (Inr (), w1)"
      unfolding w1_def wb_def wa_def w_def E_def by code_simp
    have recv: "receiveSaslMessage E w1 = (Inr kerberos_first_reply, w2)"
      unfolding w2_def w1_def wb_def wa_def w_def E_def by code_simp
    have "Auths kerberos_first_reply = kerberos_auth # [token_auth] \<and>
        \<not> (GetString (Method kerberos_auth) = ''TOKEN'' \<and>
           GetString (Mechanism kerberos_auth) = ''DIGEST-MD5'')"
      by (simp add: kerberos_first_reply_def kerberos_auth_def GetString_def)
    with sasl_negotiation_rejects [OF dialed token greeted sent recv, of demo_connection_id]
    show ?thesis unfolding E_def by (metis fst_conv)
  qed
  from first second show ?thesis unfolding w_def by simp
qed

end
